theory Spec2Isabelle
  imports Main
begin

section \<open>XliffFileType.js: the aggregation pipeline of the xliff plugin\<close>

text \<open>
  The source is one JavaScript class, \<^verbatim>\<open>XliffFileType\<close>, whose methods forward to
  collaborators that live in other files: \<^verbatim>\<open>TranslationSet\<close>, \<^verbatim>\<open>XliffFile\<close>,
  Node's \<^verbatim>\<open>path.normalize\<close> and \<^verbatim>\<open>child_process.spawnSync\<close>, and the log4js
  logger. The methods are embedded as state transformers over a record holding
  the fields of \<^verbatim>\<open>this\<close> and the part of the surrounding world the methods act on
  (the log, the processes spawned, the implicit global \<^verbatim>\<open>ret\<close>, the number of
  \<^verbatim>\<open>XliffFile\<close> objects constructed). What a collaborator computes is a
  parameter: every theorem below holds for whatever the collaborators compute.

  The source contains no \<^verbatim>\<open>throw\<close> and no \<^verbatim>\<open>try\<close>: on its own every method runs to
  its end. An exception could only come out of a collaborator and would leave
  the method at that call; the embedding describes the calls in which the
  collaborators return, so a collaborator is a function from the state of its
  object to the new state. The sets and the file are separate objects: a call
  on one does not change another.
\<close>

subsection \<open>Data\<close>

text \<open>The log4js levels; the source calls trace, debug, info and warn.\<close>

datatype level = Trace | Debug | Info | Warn | Error | Fatal

type_synonym log_entry = "level \<times> string"

text \<open>
  The project object handed to the constructor. The source reads
  \<^verbatim>\<open>project.sourceLocale\<close> and \<^verbatim>\<open>project.options.id\<close>.
\<close>

record project =
  sourceLocale :: string
  options_id :: string

text \<open>
  What \<^verbatim>\<open>spawnSync\<close> returns: \<^verbatim>\<open>status\<close> is the exit code, or null when the
  process did not exit by itself; \<^verbatim>\<open>stdout\<close> and \<^verbatim>\<open>stderr\<close> are buffers
  (always truthy, also when empty) or null.
\<close>

record procStatus =
  status :: "int option"
  stdout :: "string option"
  stderr :: "string option"

text \<open>
  The collaborators. \<open>'r\<close> is a resource, \<open>'ts\<close> the state of a TranslationSet
  object, \<open>'f\<close> the state of an XliffFile object.
\<close>

record ('r, 'ts, 'f) collab =
  ts_getAll :: "'ts \<Rightarrow> 'r list"              \<comment> \<open>\<^verbatim>\<open>set.getAll()\<close>\<close>
  ts_addSet :: "'ts \<Rightarrow> 'ts \<Rightarrow> 'ts"            \<comment> \<open>\<^verbatim>\<open>set.addSet(other)\<close>, the new state of \<^verbatim>\<open>set\<close>\<close>
  ts_isDirty :: "'ts \<Rightarrow> bool"                 \<comment> \<open>\<^verbatim>\<open>set.isDirty()\<close>\<close>
  res_reskey :: "'r \<Rightarrow> string"                \<comment> \<open>\<^verbatim>\<open>res.reskey\<close>\<close>
  xf_new :: "project \<Rightarrow> string \<Rightarrow> string \<Rightarrow> 'f"
    \<comment> \<open>\<^verbatim>\<open>new XliffFile({project, pathName, sourceLocale})\<close>\<close>
  xf_addResource :: "'f \<Rightarrow> 'r \<Rightarrow> 'f"          \<comment> \<open>\<^verbatim>\<open>file.addResource(res)\<close>\<close>
  xf_write :: "'f \<Rightarrow> 'f"                       \<comment> \<open>\<^verbatim>\<open>file.write()\<close>\<close>
  xf_getTranslationSet :: "'f \<Rightarrow> 'ts"          \<comment> \<open>\<^verbatim>\<open>file.getTranslationSet()\<close>\<close>
  xf_pathName :: "'f \<Rightarrow> string"                \<comment> \<open>\<^verbatim>\<open>file.pathName\<close>\<close>
  path_normalize :: "string \<Rightarrow> string"         \<comment> \<open>\<^verbatim>\<open>path.normalize(p)\<close>\<close>
  spawnSync :: "string \<Rightarrow> string list \<Rightarrow> procStatus"
    \<comment> \<open>what the process spawned for a command and its arguments reports\<close>

text \<open>
  An XliffFile is an object: \<^verbatim>\<open>this.file\<close> holds a reference to it. The model
  keeps the object's identity (a number, fresh at construction) next to its
  contents, so that "the same object" is told apart from "an equal object".
\<close>

type_synonym oid = nat

record ('ts, 'f) state =
  \<comment> \<open>the fields of \<^verbatim>\<open>this\<close>\<close>
  ftype :: string                             \<comment> \<open>\<^verbatim>\<open>this.type\<close>\<close>
  project :: project
  files :: "oid list"
  extensions :: "string list"
  "file" :: "(oid \<times> 'f) option"              \<comment> \<open>undefined until newFile creates it\<close>
  dataType :: "string option"                 \<comment> \<open>\<^verbatim>\<open>this.datatype\<close>\<close>
  extracted :: 'ts
  newres :: 'ts
  pseudo :: 'ts
  \<comment> \<open>the world around it\<close>
  logged :: "log_entry list"                  \<comment> \<open>the calls to this file's logger, oldest first\<close>
  spawned :: "(string \<times> string list) list"    \<comment> \<open>the calls to spawnSync, oldest first\<close>
  global_ret :: "bool option"                 \<comment> \<open>the global variable \<^verbatim>\<open>ret\<close>\<close>
  allocated :: nat                            \<comment> \<open>XliffFile objects constructed so far\<close>

subsection \<open>Logging and string conversion\<close>

definition logger :: "level \<Rightarrow> string \<Rightarrow> ('ts, 'f) state \<Rightarrow> ('ts, 'f) state" where
  "logger lv msg s = s\<lparr>logged := logged s @ [(lv, msg)]\<rparr>"

text \<open>JavaScript's conversion of a non-negative integer to a string.\<close>

definition digit :: "nat \<Rightarrow> char" where
  "digit d = ''0123456789'' ! (d mod 10)"

fun string_of_nat :: "nat \<Rightarrow> string" where
  "string_of_nat n =
     (if n < 10 then [digit n] else string_of_nat (n div 10) @ [digit (n mod 10)])"

subsection \<open>The constructor\<close>

text \<open>
  Modelled from the spec: \<^verbatim>\<open>FileType.js\<close>, the parent constructor called by
  \<^verbatim>\<open>this.parent.call(this, project)\<close>, is not part of the source. By section 3
  of the spec the three resource sets are created once at construction and no
  ResourceFile exists yet; the sets it creates and the world it starts in are
  arguments here.
\<close>

definition FileType ::
  "project \<Rightarrow> 'ts \<Rightarrow> 'ts \<Rightarrow> 'ts \<Rightarrow> ('ts, 'f) state \<Rightarrow> ('ts, 'f) state" where
  "FileType proj ex nw ps s =
     s\<lparr>project := proj, extracted := ex, newres := nw, pseudo := ps\<rparr>"

text \<open>
  The constructor runs on a fresh object, none of whose fields is defined yet:
  \<^verbatim>\<open>this.file\<close> and \<^verbatim>\<open>this.datatype\<close>, which it does not assign, are undefined
  afterwards. The argument \<open>s\<close> gives the world the object is created in.
\<close>

definition XliffFileType ::
  "project \<Rightarrow> 'ts \<Rightarrow> 'ts \<Rightarrow> 'ts \<Rightarrow> ('ts, 'f) state \<Rightarrow> ('ts, 'f) state" where
  "XliffFileType proj ex nw ps s =
     (let s0 = s\<lparr>file := None, dataType := None\<rparr>;
          s1 = s0\<lparr>ftype := ''xml''\<rparr>;
          s2 = FileType proj ex nw ps s1
      in s2\<lparr>files := [], extensions := [''.xliff'']\<rparr>)"

subsection \<open>handles\<close>

definition handles ::
  "('r, 'ts, 'f) collab \<Rightarrow> string \<Rightarrow> ('ts, 'f) state \<Rightarrow> bool \<times> ('ts, 'f) state" where
  "handles E pathName s =
     (let s1 = logger Debug (''XliffFileType handles '' @ pathName @ ''?'') s;
          ret = (path_normalize E pathName = ''en-US.xliff'');
          s2 = s1\<lparr>global_ret := Some ret\<rparr>;
          s3 = logger Debug (if ret then ''Yes'' else ''No'') s2
      in (ret, s3))"

definition name :: "('ts, 'f) state \<Rightarrow> string \<times> ('ts, 'f) state" where
  "name s = (''Xliff File Type'', s)"

subsection \<open>write\<close>

text \<open>
  The method \<^verbatim>\<open>write\<close> is called \<open>write_out\<close> here, its own name being a command of
  Isabelle. First one of its two loops: each resource is added to the file,
  then a trace line is logged that reads the file's path after the addition.
\<close>

fun addResources ::
  "('r, 'ts, 'f) collab \<Rightarrow> 'r list \<Rightarrow> 'f \<times> log_entry list \<Rightarrow> 'f \<times> log_entry list" where
  "addResources E [] (f, lg) = (f, lg)"
| "addResources E (res # rest) (f, lg) =
     (let f' = xf_addResource E f res;
          lg' = lg @ [(Trace, ''Added '' @ res_reskey E res @ '' to '' @ xf_pathName E f')]
      in addResources E rest (f', lg'))"

text \<open>The argument list of the importer, as the source spells it.\<close>

definition xcodebuild_args :: "string list" where
  "xcodebuild_args =
     [''-importLocalizations'', ''-localizationPath'', ''./en.xliff'',
      ''-project'', ''feelgood.xcodeproj'']"

text \<open>The body of \<^verbatim>\<open>if (this.file.getTranslationSet().isDirty())\<close>.\<close>

definition runImport :: "('r, 'ts, 'f) collab \<Rightarrow> ('ts, 'f) state \<Rightarrow> ('ts, 'f) state" where
  "runImport E s =
     (let s1 = logger Info (''executing xcodebuild on the '' @ options_id (project s) @
                 '' project to import those translations. This may take a while...'') s;
          args = xcodebuild_args;
          p = spawnSync E ''xcodebuild'' args;
          s2 = s1\<lparr>spawned := spawned s1 @ [(''xcodebuild'', args)]\<rparr>;
          s3 = (case stdout p of None \<Rightarrow> s2 | Some out \<Rightarrow> logger Info out s2);
          s4 = (if status p \<noteq> Some 0 then logger Warn ''Execution failed: '' s3 else s3);
          s5 = (case stderr p of None \<Rightarrow> s4 | Some err \<Rightarrow> logger Info err s4)
      in logger Info ''xcodebuild done'' s5)"

definition write_out :: "('r, 'ts, 'f) collab \<Rightarrow> ('ts, 'f) state \<Rightarrow> ('ts, 'f) state" where
  "write_out E s =
     (let s0 = logger Trace ''Writing xliff files'' s
      in case file s0 of
           None \<Rightarrow> s0
         | Some (i, f0) \<Rightarrow>
             (let resources = ts_getAll E (newres s0);
                  lg1 = logged s0 @ [(Trace, ''There are '' @ string_of_nat (length resources) @
                          '' resources to add.'')];
                  (f1, lg2) = addResources E resources (f0, lg1);
                  resources = ts_getAll E (pseudo s0);
                  (f2, lg3) = addResources E resources (f1, lg2);
                  lg4 = lg3 @ [(Info, ''Now writing out the ios xliff files'')];
                  f3 = xf_write E f2;
                  s1 = s0\<lparr>file := Some (i, f3), logged := lg4\<rparr>
              in if ts_isDirty E (xf_getTranslationSet E f3) then runImport E s1 else s1))"

subsection \<open>The file object and the accessors\<close>

definition newFile ::
  "('r, 'ts, 'f) collab \<Rightarrow> string \<Rightarrow> ('ts, 'f) state \<Rightarrow> (oid \<times> 'f) \<times> ('ts, 'f) state" where
  "newFile E pathName s =
     (case file s of
        None \<Rightarrow>
          (let obj = (allocated s, xf_new E (project s) pathName (sourceLocale (project s)))
           in (obj, s\<lparr>file := Some obj, allocated := Suc (allocated s)\<rparr>))
      | Some obj \<Rightarrow> (obj, s))"

definition getResourceFile :: "('ts, 'f) state \<Rightarrow> (oid \<times> 'f) option \<times> ('ts, 'f) state" where
  "getResourceFile s = (file s, s)"

definition getDataType :: "('ts, 'f) state \<Rightarrow> string option \<times> ('ts, 'f) state" where
  "getDataType s = (dataType s, s)"

text \<open>getResourceTypes returns a fresh empty object: a map with no key.\<close>

definition getResourceTypes :: "('ts, 'f) state \<Rightarrow> (string \<rightharpoonup> string) \<times> ('ts, 'f) state" where
  "getResourceTypes s = (Map.empty, s)"

definition getExtensions :: "('ts, 'f) state \<Rightarrow> string list \<times> ('ts, 'f) state" where
  "getExtensions s = (extensions s, s)"

definition getExtracted :: "('ts, 'f) state \<Rightarrow> 'ts \<times> ('ts, 'f) state" where
  "getExtracted s = (extracted s, s)"

definition addSet :: "('r, 'ts, 'f) collab \<Rightarrow> 'ts \<Rightarrow> ('ts, 'f) state \<Rightarrow> ('ts, 'f) state" where
  "addSet E set' s = s\<lparr>extracted := ts_addSet E (extracted s) set'\<rparr>"

definition getNew :: "('ts, 'f) state \<Rightarrow> 'ts \<times> ('ts, 'f) state" where
  "getNew s = (newres s, s)"

definition getPseudo :: "('ts, 'f) state \<Rightarrow> 'ts \<times> ('ts, 'f) state" where
  "getPseudo s = (pseudo s, s)"

subsection \<open>Runs of the pipeline\<close>

text \<open>One constructor per method of the class; exec keeps the state a call leaves.\<close>

datatype 'ts op =
    Handles string | Name | Write | NewFile string | GetResourceFile | GetDataType
  | GetResourceTypes | GetExtensions | GetExtracted | AddSet 'ts | GetNew | GetPseudo

fun exec :: "('r, 'ts, 'f) collab \<Rightarrow> 'ts op \<Rightarrow> ('ts, 'f) state \<Rightarrow> ('ts, 'f) state" where
  "exec E (Handles p) s = snd (handles E p s)"
| "exec E Name s = snd (name s)"
| "exec E Write s = write_out E s"
| "exec E (NewFile p) s = snd (newFile E p s)"
| "exec E GetResourceFile s = snd (getResourceFile s)"
| "exec E GetDataType s = snd (getDataType s)"
| "exec E GetResourceTypes s = snd (getResourceTypes s)"
| "exec E GetExtensions s = snd (getExtensions s)"
| "exec E GetExtracted s = snd (getExtracted s)"
| "exec E (AddSet t) s = addSet E t s"
| "exec E GetNew s = snd (getNew s)"
| "exec E GetPseudo s = snd (getPseudo s)"

fun run :: "('r, 'ts, 'f) collab \<Rightarrow> 'ts op list \<Rightarrow> ('ts, 'f) state \<Rightarrow> ('ts, 'f) state" where
  "run E [] s = s"
| "run E (c # cs) s = run E cs (exec E c s)"

subsection \<open>Node's path.normalize\<close>

text \<open>
  Modelled from the spec: \<^verbatim>\<open>path.normalize\<close> is a function of Node's library and
  is not part of the source. Sections 4.1 and 8 of the spec say what it does on
  the paths recognition is about (\<^verbatim>\<open>.\<close> segments are dropped, so that
  \<^verbatim>\<open>./en-US.xliff\<close> normalizes to \<^verbatim>\<open>en-US.xliff\<close>). The definition follows Node's
  POSIX algorithm: the path is cut at \<^verbatim>\<open>/\<close>; empty and \<^verbatim>\<open>.\<close> segments are
  dropped; \<^verbatim>\<open>..\<close> removes the segment before it, and is kept at the front of a
  relative path; a leading and a trailing \<^verbatim>\<open>/\<close> are kept; the empty path gives
  \<^verbatim>\<open>.\<close>.
\<close>

fun splitSep :: "string \<Rightarrow> string list" where
  "splitSep [] = [[]]"
| "splitSep (c # cs) =
     (if c = CHR ''/'' then [] # splitSep cs
      else (case splitSep cs of [] \<Rightarrow> [[c]] | seg # segs \<Rightarrow> (c # seg) # segs))"

fun joinSep :: "string list \<Rightarrow> string" where
  "joinSep [] = []"
| "joinSep [seg] = seg"
| "joinSep (seg # segs) = seg @ ''/'' @ joinSep segs"

text \<open>The segments kept so far are held in reverse, the last one first.\<close>

fun normalizeSegs :: "bool \<Rightarrow> string list \<Rightarrow> string list \<Rightarrow> string list" where
  "normalizeSegs allowAboveRoot [] acc = rev acc"
| "normalizeSegs allowAboveRoot (seg # segs) acc =
     (if seg = [] \<or> seg = ''.'' then normalizeSegs allowAboveRoot segs acc
      else if seg = ''..'' then
        (case acc of
           [] \<Rightarrow> normalizeSegs allowAboveRoot segs (if allowAboveRoot then [''..''] else [])
         | seg' # below \<Rightarrow>
             if seg' = ''..'' then normalizeSegs allowAboveRoot segs (''..'' # acc)
             else normalizeSegs allowAboveRoot segs below)
      else normalizeSegs allowAboveRoot segs (seg # acc))"

definition posix_normalize :: "string \<Rightarrow> string" where
  "posix_normalize p =
     (if p = [] then ''.''
      else
        (let isAbsolute = (hd p = CHR ''/'');
             trailingSeparator = (last p = CHR ''/'');
             q = joinSep (normalizeSegs (\<not> isAbsolute) (splitSep p) [])
         in if q = [] then (if isAbsolute then ''/'' else if trailingSeparator then ''./'' else ''.'')
            else (if isAbsolute then ''/'' else []) @ q @ (if trailingSeparator then ''/'' else [])))"

subsection \<open>Stand-in collaborators\<close>

text \<open>
  Modelled from the spec: \<^verbatim>\<open>TranslationSet.js\<close> and \<^verbatim>\<open>XliffFile.js\<close> are not part
  of the source. This stand-in follows sections 2, 3 and 6 of the spec and serves
  to run the theorems on concrete inputs: a resource is its key, a set is the
  list of its records with a dirty flag, addSet appends, a file is a path with
  its underlying set, addResource appends and marks the set dirty. Whether
  persisting clears the dirty flag is left open by the spec ("clears or reflects")
  and is the argument \<open>keepDirty\<close>; \<open>p\<close> is what the importer reports.
\<close>

type_synonym list_set = "string list \<times> bool"

type_synonym list_file = "string \<times> list_set"

definition list_collab :: "bool \<Rightarrow> procStatus \<Rightarrow> (string, list_set, list_file) collab" where
  "list_collab keepDirty p =
     \<lparr>ts_getAll = fst,
      ts_addSet = (\<lambda>a b. (fst a @ fst b, True)),
      ts_isDirty = snd,
      res_reskey = (\<lambda>r. r),
      xf_new = (\<lambda>proj pathName locale. (pathName, ([], False))),
      xf_addResource = (\<lambda>f r. (fst f, (fst (snd f) @ [r], True))),
      xf_write = (\<lambda>f. if keepDirty then f else (fst f, (fst (snd f), False))),
      xf_getTranslationSet = snd,
      xf_pathName = fst,
      path_normalize = posix_normalize,
      spawnSync = (\<lambda>cmd args. p)\<rparr>"

text \<open>A world in which nothing has happened yet, and an instance constructed in it.\<close>

definition world0 :: "(list_set, list_file) state" where
  "world0 =
     \<lparr>ftype = [], project = \<lparr>sourceLocale = [], options_id = []\<rparr>, files = [],
      extensions = [], file = None, dataType = None, extracted = ([], False),
      newres = ([], False), pseudo = ([], False), logged = [], spawned = [],
      global_ret = None, allocated = 0\<rparr>"

definition demo :: "(list_set, list_file) state" where
  "demo =
     XliffFileType \<lparr>sourceLocale = ''en-US'', options_id = ''feelgood''\<rparr>
       ([''old''], False) ([''a'', ''b''], True) ([''c''], True) world0"

subsection \<open>What write does, in closed form\<close>

text \<open>
  The file after the two loops, and after the persist step that follows them.
\<close>

definition merged :: "('r, 'ts, 'f) collab \<Rightarrow> ('ts, 'f) state \<Rightarrow> 'f \<Rightarrow> 'f" where
  "merged E s f0 =
     foldl (xf_addResource E) f0 (ts_getAll E (newres s) @ ts_getAll E (pseudo s))"

definition persisted :: "('r, 'ts, 'f) collab \<Rightarrow> ('ts, 'f) state \<Rightarrow> 'f \<Rightarrow> 'f" where
  "persisted E s f0 = xf_write E (merged E s f0)"

text \<open>The lines one loop logs.\<close>

fun added_lines :: "('r, 'ts, 'f) collab \<Rightarrow> 'r list \<Rightarrow> 'f \<Rightarrow> log_entry list" where
  "added_lines E [] f = []"
| "added_lines E (res # rest) f =
     (Trace, ''Added '' @ res_reskey E res @ '' to '' @ xf_pathName E (xf_addResource E f res))
       # added_lines E rest (xf_addResource E f res)"

text \<open>The lines write logs up to the persist step, and the lines of the import.\<close>

definition merge_lines :: "('r, 'ts, 'f) collab \<Rightarrow> ('ts, 'f) state \<Rightarrow> 'f \<Rightarrow> log_entry list" where
  "merge_lines E s f0 =
     [(Trace, ''Writing xliff files''),
      (Trace, ''There are '' @ string_of_nat (length (ts_getAll E (newres s))) @
              '' resources to add.'')]
     @ added_lines E (ts_getAll E (newres s)) f0
     @ added_lines E (ts_getAll E (pseudo s))
         (foldl (xf_addResource E) f0 (ts_getAll E (newres s)))
     @ [(Info, ''Now writing out the ios xliff files'')]"

definition import_lines :: "('r, 'ts, 'f) collab \<Rightarrow> project \<Rightarrow> log_entry list" where
  "import_lines E proj =
     (let p = spawnSync E ''xcodebuild'' xcodebuild_args
      in [(Info, ''executing xcodebuild on the '' @ options_id proj @
                 '' project to import those translations. This may take a while...'')]
         @ (case stdout p of None \<Rightarrow> [] | Some out \<Rightarrow> [(Info, out)])
         @ (if status p \<noteq> Some 0 then [(Warn, ''Execution failed: '')] else [])
         @ (case stderr p of None \<Rightarrow> [] | Some err \<Rightarrow> [(Info, err)])
         @ [(Info, ''xcodebuild done'')])"

definition is_NewFile :: "'ts op \<Rightarrow> bool" where
  "is_NewFile c = (case c of NewFile p \<Rightarrow> True | _ \<Rightarrow> False)"

text \<open>The sets handed to addSet in a run, in the order of the calls.\<close>

fun addSet_args :: "'ts op list \<Rightarrow> 'ts list" where
  "addSet_args [] = []"
| "addSet_args (AddSet t # cs) = t # addSet_args cs"
| "addSet_args (c # cs) = addSet_args cs"

text \<open>The lines of a log at one level.\<close>

definition at_level :: "level \<Rightarrow> log_entry list \<Rightarrow> log_entry list" where
  "at_level lv lg = filter (\<lambda>e. fst e = lv) lg"

section \<open>Properties\<close>

subsection \<open>Auxiliary facts\<close>

declare string_of_nat.simps [simp del]

lemma addResources_eq:
  "addResources E rs (f, lg) = (foldl (xf_addResource E) f rs, lg @ added_lines E rs f)"
  by (induction rs arbitrary: f lg) (simp_all add: Let_def)

lemma runImport_eq:
  "runImport E s =
     s\<lparr>logged := logged s @ import_lines E (project s),
       spawned := spawned s @ [(''xcodebuild'', xcodebuild_args)]\<rparr>"
  by (simp add: runImport_def import_lines_def logger_def Let_def split: option.splits)

lemma write_out_None:
  "file s = None \<Longrightarrow> write_out E s = s\<lparr>logged := logged s @ [(Trace, ''Writing xliff files'')]\<rparr>"
  by (simp add: write_out_def logger_def)

lemma write_out_Some:
  "file s = Some (i, f0) \<Longrightarrow>
   write_out E s =
     (if ts_isDirty E (xf_getTranslationSet E (persisted E s f0))
      then s\<lparr>file := Some (i, persisted E s f0),
             logged := logged s @ merge_lines E s f0 @ import_lines E (project s),
             spawned := spawned s @ [(''xcodebuild'', xcodebuild_args)]\<rparr>
      else s\<lparr>file := Some (i, persisted E s f0),
             logged := logged s @ merge_lines E s f0\<rparr>)"
  by (simp add: write_out_def logger_def addResources_eq runImport_eq persisted_def
      merged_def merge_lines_def Let_def)

lemma write_out_file:
  "file (write_out E s) = map_option (\<lambda>(i, f0). (i, persisted E s f0)) (file s)"
proof (cases "file s")
  case None
  then show ?thesis by (simp add: write_out_None)
next
  case (Some obj)
  then obtain i f0 where "file s = Some (i, f0)" by (cases obj) simp
  then show ?thesis by (simp add: write_out_Some)
qed

lemma write_out_spawned:
  "spawned (write_out E s) = spawned s @
     (case file s of
        None \<Rightarrow> []
      | Some (i, f0) \<Rightarrow>
          if ts_isDirty E (xf_getTranslationSet E (persisted E s f0))
          then [(''xcodebuild'', xcodebuild_args)] else [])"
proof (cases "file s")
  case None
  then show ?thesis by (simp add: write_out_None)
next
  case (Some obj)
  then obtain i f0 where "file s = Some (i, f0)" by (cases obj) simp
  then show ?thesis by (simp add: write_out_Some)
qed

lemma write_out_logged:
  "logged (write_out E s) = logged s @
     (case file s of
        None \<Rightarrow> [(Trace, ''Writing xliff files'')]
      | Some (i, f0) \<Rightarrow>
          merge_lines E s f0 @
          (if ts_isDirty E (xf_getTranslationSet E (persisted E s f0))
           then import_lines E (project s) else []))"
proof (cases "file s")
  case None
  then show ?thesis by (simp add: write_out_None)
next
  case (Some obj)
  then obtain i f0 where "file s = Some (i, f0)" by (cases obj) simp
  then show ?thesis by (simp add: write_out_Some)
qed

lemma write_out_sets:
  "extracted (write_out E s) = extracted s \<and> newres (write_out E s) = newres s \<and>
   pseudo (write_out E s) = pseudo s"
proof (cases "file s")
  case None
  then show ?thesis by (simp add: write_out_None)
next
  case (Some obj)
  then obtain i f0 where "file s = Some (i, f0)" by (cases obj) simp
  then show ?thesis by (simp add: write_out_Some)
qed

lemma persisted_extracted: "persisted E (s\<lparr>extracted := x\<rparr>) f0 = persisted E s f0"
  by (simp add: persisted_def merged_def)

lemma merge_lines_extracted: "merge_lines E (s\<lparr>extracted := x\<rparr>) f0 = merge_lines E s f0"
  by (simp add: merge_lines_def)

lemma write_out_extracted_update:
  "write_out E (s\<lparr>extracted := x\<rparr>) = (write_out E s)\<lparr>extracted := x\<rparr>"
proof (cases "file s")
  case None
  then show ?thesis by (simp add: write_out_None)
next
  case (Some obj)
  then obtain i f0 where "file s = Some (i, f0)" by (cases obj) simp
  then show ?thesis by (simp add: write_out_Some persisted_extracted merge_lines_extracted)
qed

text \<open>What each method leaves of the fields the claims are about.\<close>

lemma exec_file:
  "file (exec E c s) =
     (case c of
        NewFile p \<Rightarrow> Some (fst (newFile E p s))
      | Write \<Rightarrow> map_option (\<lambda>(i, f0). (i, persisted E s f0)) (file s)
      | _ \<Rightarrow> file s)"
  by (cases c)
    (simp_all add: handles_def name_def newFile_def getResourceFile_def getDataType_def
      getResourceTypes_def getExtensions_def getExtracted_def addSet_def getNew_def
      getPseudo_def logger_def write_out_file Let_def split: option.splits)

lemma exec_newres_pseudo:
  "newres (exec E c s) = newres s \<and> pseudo (exec E c s) = pseudo s"
  by (cases c)
    (simp_all add: handles_def name_def newFile_def getResourceFile_def getDataType_def
      getResourceTypes_def getExtensions_def getExtracted_def addSet_def getNew_def
      getPseudo_def logger_def write_out_sets Let_def split: option.splits)

lemma exec_extracted:
  "extracted (exec E c s) =
     (case c of AddSet t \<Rightarrow> ts_addSet E (extracted s) t | _ \<Rightarrow> extracted s)"
  by (cases c)
    (simp_all add: handles_def name_def newFile_def getResourceFile_def getDataType_def
      getResourceTypes_def getExtensions_def getExtracted_def addSet_def getNew_def
      getPseudo_def logger_def write_out_sets Let_def split: option.splits)

lemma run_keeps_None:
  "file s = None \<Longrightarrow> \<forall>c\<in>set cs. \<not> is_NewFile c \<Longrightarrow> file (run E cs s) = None"
proof (induction cs arbitrary: s)
  case Nil
  then show ?case by simp
next
  case (Cons c cs)
  from Cons.prems have "file (exec E c s) = None"
    by (cases c) (simp_all add: exec_file is_NewFile_def del: exec.simps)
  with Cons show ?case by simp
qed

lemma exec_keeps_oid:
  "file s = Some (i, f) \<Longrightarrow> \<exists>f'. file (exec E c s) = Some (i, f')"
  by (cases c) (simp_all add: exec_file newFile_def del: exec.simps)

lemma run_keeps_oid:
  "file s = Some (i, f) \<Longrightarrow> \<exists>f'. file (run E cs s) = Some (i, f')"
proof (induction cs arbitrary: s f)
  case Nil
  then show ?case by simp
next
  case (Cons c cs)
  from exec_keeps_oid [OF Cons.prems] obtain f' where "file (exec E c s) = Some (i, f')" ..
  from Cons.IH [OF this] show ?case by simp
qed

lemma run_newres_pseudo:
  "newres (run E cs s) = newres s \<and> pseudo (run E cs s) = pseudo s"
  by (induction cs arbitrary: s) (simp_all add: exec_newres_pseudo del: exec.simps)

lemma write_out_allocated: "allocated (write_out E s) = allocated s"
proof (cases "file s")
  case None
  then show ?thesis by (simp add: write_out_None)
next
  case (Some obj)
  then obtain i f0 where "file s = Some (i, f0)" by (cases obj) simp
  then show ?thesis by (simp add: write_out_Some)
qed

lemma exec_allocated:
  "file s = Some (i, f) \<Longrightarrow> allocated (exec E c s) = allocated s"
  by (cases c)
    (simp_all add: handles_def name_def newFile_def getResourceFile_def getDataType_def
      getResourceTypes_def getExtensions_def getExtracted_def addSet_def getNew_def
      getPseudo_def logger_def write_out_allocated Let_def)

lemma run_allocated:
  "file s = Some (i, f) \<Longrightarrow> allocated (run E cs s) = allocated s"
proof (induction cs arbitrary: s f)
  case Nil
  then show ?case by simp
next
  case (Cons c cs)
  from exec_keeps_oid [OF Cons.prems] obtain f' where f': "file (exec E c s) = Some (i, f')" ..
  from Cons.IH [OF f'] exec_allocated [OF Cons.prems] show ?case by simp
qed

lemma run_extracted:
  "extracted (run E cs s) = foldl (ts_addSet E) (extracted s) (addSet_args cs)"
proof (induction cs arbitrary: s)
  case Nil
  then show ?case by simp
next
  case (Cons c cs)
  show ?case
    by (cases c) (simp_all add: Cons.IH exec_extracted del: exec.simps)
qed

lemma foldl_addSet_grows:
  assumes "\<forall>a b. set (ts_getAll E a) \<subseteq> set (ts_getAll E (ts_addSet E a b))"
  shows "set (ts_getAll E x) \<subseteq> set (ts_getAll E (foldl (ts_addSet E) x ts))"
proof (induction ts arbitrary: x)
  case Nil
  then show ?case by simp
next
  case (Cons t ts)
  from assms have "set (ts_getAll E x) \<subseteq> set (ts_getAll E (ts_addSet E x t))" by blast
  also have "\<dots> \<subseteq> set (ts_getAll E (foldl (ts_addSet E) (ts_addSet E x t) ts))"
    by (rule Cons.IH)
  finally show ?case by simp
qed

lemma at_level_append: "at_level lv (xs @ ys) = at_level lv xs @ at_level lv ys"
  by (simp add: at_level_def)

lemma at_level_Nil: "at_level lv [] = []"
  by (simp add: at_level_def)

lemma at_level_Cons:
  "at_level lv (e # es) = (if fst e = lv then e # at_level lv es else at_level lv es)"
  by (simp add: at_level_def)

lemma at_level_added_lines: "lv \<noteq> Trace \<Longrightarrow> at_level lv (added_lines E rs f) = []"
  by (induction rs arbitrary: f) (simp_all add: at_level_Cons at_level_Nil)

lemma at_level_merge_lines:
  "lv \<noteq> Trace \<Longrightarrow> lv \<noteq> Info \<Longrightarrow> at_level lv (merge_lines E s f0) = []"
  by (simp add: merge_lines_def at_level_append at_level_added_lines at_level_Cons at_level_Nil)

lemma at_level_import_lines:
  "lv \<noteq> Info \<Longrightarrow>
   at_level lv (import_lines E proj) =
     (if lv = Warn \<and> status (spawnSync E ''xcodebuild'' xcodebuild_args) \<noteq> Some 0
      then [(Warn, ''Execution failed: '')] else [])"
  by (auto simp add: import_lines_def at_level_def Let_def split: option.splits)

lemma persisted_spawnSync: "persisted (E\<lparr>spawnSync := g\<rparr>) s f0 = persisted E s f0"
  by (simp add: persisted_def merged_def)

subsection \<open>The merge of write\<close>

text \<open>
  C1. When a ResourceFile exists, one call of write applies addResource to the
  file once for every record that getAll returns for the "new" set, in that
  order, then once for every record that getAll returns for the "pseudo" set,
  in that order, and then persists the file: the file left behind is the
  persisted result of exactly that sequence of additions, and it is still the
  same object. The statement holds for every addResource, so no addition is
  repeated, dropped or reordered.
\<close>

theorem write_adds_new_then_pseudo:
  "file s = Some (i, f0) \<Longrightarrow>
   file (write_out E s) =
     Some (i, xf_write E (foldl (xf_addResource E) f0
                (ts_getAll E (newres s) @ ts_getAll E (pseudo s))))"
  by (simp add: write_out_file persisted_def merged_def)

theorem write_adds_new_then_pseudo_witness:
  "file (snd (newFile (list_collab True \<lparr>status = Some 0, stdout = None, stderr = None\<rparr>)
           ''en-US.xliff'' demo)) = Some (0, (''en-US.xliff'', ([], False))) \<and>
   file (write_out (list_collab True \<lparr>status = Some 0, stdout = None, stderr = None\<rparr>)
          (snd (newFile (list_collab True \<lparr>status = Some 0, stdout = None, stderr = None\<rparr>)
             ''en-US.xliff'' demo))) =
     Some (0, (''en-US.xliff'', ([''a'', ''b'', ''c''], True)))"
proof -
  let ?E = "list_collab True \<lparr>status = Some 0, stdout = None, stderr = None\<rparr>"
  have h: "file (snd (newFile ?E ''en-US.xliff'' demo)) = Some (0, (''en-US.xliff'', ([], False)))"
    by (simp add: newFile_def demo_def XliffFileType_def FileType_def world0_def
        list_collab_def Let_def)
  show ?thesis
    using h write_adds_new_then_pseudo [OF h, of ?E]
    by (simp add: newFile_def demo_def XliffFileType_def FileType_def world0_def
        list_collab_def Let_def)
qed

subsection \<open>The import gate\<close>

text \<open>
  C2. One call of write invokes the external importer (spawnSync) exactly once
  when a ResourceFile exists and the dirty flag of its underlying set, read
  right after the persist step, is true; otherwise it does not invoke it at
  all. The file whose flag is read is the file the call leaves behind.
\<close>

theorem importer_iff_dirty_after_persist:
  "spawned (write_out E s) = spawned s @
     (case file s of
        None \<Rightarrow> []
      | Some (i, f0) \<Rightarrow>
          if ts_isDirty E (xf_getTranslationSet E
               (xf_write E (foldl (xf_addResource E) f0
                  (ts_getAll E (newres s) @ ts_getAll E (pseudo s)))))
          then [(''xcodebuild'', xcodebuild_args)] else [])
   \<and> spawned (write_out E s) = spawned s @
     (case file (write_out E s) of
        None \<Rightarrow> []
      | Some (i, f) \<Rightarrow>
          if ts_isDirty E (xf_getTranslationSet E f)
          then [(''xcodebuild'', xcodebuild_args)] else [])"
  by (simp add: write_out_spawned write_out_file persisted_def merged_def
      split: option.splits)

subsection \<open>write without a file\<close>

text \<open>
  C3. As long as no ResourceFile has been created (the instance has no file and
  newFile is not among the calls made since), write is a no-op: the state it
  leaves differs from the state it found only by the trace line logged on
  entry. In particular there is still no file (nothing was added or
  persisted), the importer was not invoked, and nothing was logged as a
  warning or an error.
\<close>

theorem write_without_file_is_noop:
  assumes "file s = None" and "\<forall>c\<in>set cs. \<not> is_NewFile c"
  shows "write_out E (run E cs s) =
           (run E cs s)\<lparr>logged := logged (run E cs s) @ [(Trace, ''Writing xliff files'')]\<rparr>
         \<and> file (write_out E (run E cs s)) = None
         \<and> spawned (write_out E (run E cs s)) = spawned (run E cs s)"
proof -
  from assms have "file (run E cs s) = None" by (rule run_keeps_None)
  then show ?thesis by (simp add: write_out_None)
qed

theorem write_without_file_is_noop_witness:
  "file demo = None \<and>
   file (write_out (list_collab True \<lparr>status = Some 1, stdout = None, stderr = None\<rparr>)
     (run (list_collab True \<lparr>status = Some 1, stdout = None, stderr = None\<rparr>)
        [AddSet ([''x''], True), Handles ''en-US.xliff'', GetNew] demo)) = None \<and>
   spawned (write_out (list_collab True \<lparr>status = Some 1, stdout = None, stderr = None\<rparr>)
     (run (list_collab True \<lparr>status = Some 1, stdout = None, stderr = None\<rparr>)
        [AddSet ([''x''], True), Handles ''en-US.xliff'', GetNew] demo)) = []"
proof -
  let ?E = "list_collab True \<lparr>status = Some 1, stdout = None, stderr = None\<rparr>"
  let ?cs = "[AddSet ([''x''], True), Handles ''en-US.xliff'', GetNew]"
  have h1: "file demo = None"
    by (simp add: demo_def XliffFileType_def FileType_def Let_def)
  have h2: "\<forall>c\<in>set ?cs. \<not> is_NewFile c"
    by (simp add: is_NewFile_def)
  have sp: "spawned (run ?E ?cs demo) = []"
    by (simp add: demo_def XliffFileType_def FileType_def world0_def handles_def addSet_def
        getNew_def logger_def Let_def)
  note w = write_without_file_is_noop [OF h1 h2, of ?E]
  from w have a: "file (write_out ?E (run ?E ?cs demo)) = None"
    by (rule conjunct1 [OF conjunct2])
  from w have b: "spawned (write_out ?E (run ?E ?cs demo)) = spawned (run ?E ?cs demo)"
    by (rule conjunct2 [OF conjunct2])
  from h1 a b sp show ?thesis
    by (simp del: run.simps)
qed

subsection \<open>The extracted set stays out of the file\<close>

text \<open>
  C4. write does not read the extracted set: replacing the extracted set by any
  other, or bulk-merging any set into it with addSet, before write changes
  nothing of what write does except that the extracted set itself is the other
  one afterwards. So the records that addSet put into the extracted set are not
  handed to the ResourceFile, and the file write leaves is the same with and
  without them.
\<close>

theorem write_ignores_extracted:
  "write_out E (s\<lparr>extracted := x\<rparr>) = (write_out E s)\<lparr>extracted := x\<rparr>
   \<and> write_out E (addSet E t s) = addSet E t (write_out E s)
   \<and> file (write_out E (addSet E t s)) = file (write_out E s)
   \<and> spawned (write_out E (addSet E t s)) = spawned (write_out E s)"
  by (simp add: write_out_extracted_update addSet_def write_out_sets)

subsection \<open>The file object\<close>

text \<open>
  C5. When no ResourceFile exists, newFile(pathA) constructs one from the
  project, pathA and the project's source locale, stores it and returns it. A
  second call newFile(pathB) right after it returns that very object and leaves
  the state as it was, whatever pathB is. After any further calls of the
  methods of the class, newFile still returns the object of the first call
  (the same identity; write may have changed its contents meanwhile), and no
  second XliffFile has been constructed.
\<close>

theorem newFile_singleton:
  assumes "file s = None"
  shows "fst (newFile E pathA s) =
           (allocated s, xf_new E (project s) pathA (sourceLocale (project s)))
         \<and> file (snd (newFile E pathA s)) = Some (fst (newFile E pathA s))
         \<and> newFile E pathB (snd (newFile E pathA s)) =
             (fst (newFile E pathA s), snd (newFile E pathA s))
         \<and> fst (fst (newFile E pathB (run E cs (snd (newFile E pathA s))))) =
             fst (fst (newFile E pathA s))
         \<and> newFile E pathB (run E cs (snd (newFile E pathA s))) =
             newFile E pathC (run E cs (snd (newFile E pathA s)))
         \<and> allocated (snd (newFile E pathB (run E cs (snd (newFile E pathA s))))) =
             allocated (snd (newFile E pathA s))"
proof -
  let ?obj = "(allocated s, xf_new E (project s) pathA (sourceLocale (project s)))"
  let ?s1 = "snd (newFile E pathA s)"
  from assms have ret: "fst (newFile E pathA s) = ?obj"
    by (simp add: newFile_def Let_def)
  from assms have stored: "file ?s1 = Some ?obj"
    by (simp add: newFile_def Let_def)
  from stored have again: "newFile E pathB ?s1 = (?obj, ?s1)"
    by (simp add: newFile_def)
  from run_keeps_oid [OF stored] obtain f' where
    later: "file (run E cs ?s1) = Some (allocated s, f')" ..
  from later have same: "fst (fst (newFile E pathB (run E cs ?s1))) = allocated s"
    by (simp add: newFile_def)
  from later have anypath: "newFile E pathB (run E cs ?s1) = newFile E pathC (run E cs ?s1)"
    by (simp add: newFile_def)
  from later have "allocated (snd (newFile E pathB (run E cs ?s1))) = allocated (run E cs ?s1)"
    by (simp add: newFile_def)
  with run_allocated [OF stored]
  have once: "allocated (snd (newFile E pathB (run E cs ?s1))) = allocated ?s1"
    by simp
  from ret stored again same anypath once show ?thesis by simp
qed

theorem newFile_singleton_witness:
  "file demo = None \<and>
   fst (newFile (list_collab True \<lparr>status = Some 0, stdout = None, stderr = None\<rparr>)
     ''en-US.xliff'' demo) = (0, (''en-US.xliff'', ([], False))) \<and>
   fst (fst (newFile (list_collab True \<lparr>status = Some 0, stdout = None, stderr = None\<rparr>)
     ''fr-FR.xliff''
     (run (list_collab True \<lparr>status = Some 0, stdout = None, stderr = None\<rparr>)
        [Write, NewFile ''de-DE.xliff'']
        (snd (newFile (list_collab True \<lparr>status = Some 0, stdout = None, stderr = None\<rparr>)
           ''en-US.xliff'' demo))))) = 0"
proof -
  let ?E = "list_collab True \<lparr>status = Some 0, stdout = None, stderr = None\<rparr>"
  have h: "file demo = None"
    by (simp add: demo_def XliffFileType_def FileType_def Let_def)
  have a: "allocated demo = 0"
    by (simp add: demo_def XliffFileType_def FileType_def world0_def Let_def)
  have c: "xf_new ?E (project demo) ''en-US.xliff'' (sourceLocale (project demo)) =
             (''en-US.xliff'', ([], False))"
    by (simp add: list_collab_def)
  note w = newFile_singleton [OF h, of ?E "''en-US.xliff''" "''fr-FR.xliff''"
      "[Write, NewFile ''de-DE.xliff'']"]
  from w have r1: "fst (newFile ?E ''en-US.xliff'' demo) =
      (allocated demo, xf_new ?E (project demo) ''en-US.xliff'' (sourceLocale (project demo)))"
    by (rule conjunct1)
  from w have r2: "fst (fst (newFile ?E ''fr-FR.xliff''
      (run ?E [Write, NewFile ''de-DE.xliff''] (snd (newFile ?E ''en-US.xliff'' demo))))) =
      fst (fst (newFile ?E ''en-US.xliff'' demo))"
    by (rule conjunct1 [OF conjunct2 [OF conjunct2 [OF conjunct2]]])
  from h r1 r2 a c show ?thesis
    by (simp del: run.simps)
qed

text \<open>
  C9. getResourceFile returns the content of \<^verbatim>\<open>this.file\<close> and changes nothing:
  the state after the call is the state before it. As long as newFile has not
  been called on an instance without a file, it returns the absent value, and
  right after newFile(p) it returns exactly the object newFile returned.
\<close>

theorem getResourceFile_pure:
  assumes "file s0 = None" and "\<forall>c\<in>set cs. \<not> is_NewFile c"
  shows "fst (getResourceFile (run E cs s0)) = None
         \<and> getResourceFile s = (file s, s)
         \<and> fst (getResourceFile (snd (newFile E p s))) = Some (fst (newFile E p s))"
proof -
  from assms have "file (run E cs s0) = None" by (rule run_keeps_None)
  then have none: "fst (getResourceFile (run E cs s0)) = None"
    by (simp add: getResourceFile_def)
  have after: "fst (getResourceFile (snd (newFile E p s))) = Some (fst (newFile E p s))"
    by (cases "file s") (simp_all add: getResourceFile_def newFile_def Let_def)
  from none after show ?thesis by (simp add: getResourceFile_def)
qed

theorem getResourceFile_pure_witness:
  "file demo = None \<and>
   fst (getResourceFile
     (run (list_collab True \<lparr>status = Some 0, stdout = None, stderr = None\<rparr>)
        [Write, GetNew, AddSet ([''x''], True)] demo)) = None \<and>
   fst (getResourceFile
     (snd (newFile (list_collab True \<lparr>status = Some 0, stdout = None, stderr = None\<rparr>)
        ''en-US.xliff'' demo))) = Some (0, (''en-US.xliff'', ([], False)))"
proof -
  let ?E = "list_collab True \<lparr>status = Some 0, stdout = None, stderr = None\<rparr>"
  have h1: "file demo = None"
    by (simp add: demo_def XliffFileType_def FileType_def Let_def)
  have h2: "\<forall>c\<in>set [Write, GetNew, AddSet ([''x''], True)]. \<not> is_NewFile c"
    by (simp add: is_NewFile_def)
  have r: "fst (newFile ?E ''en-US.xliff'' demo) = (0, (''en-US.xliff'', ([], False)))"
    by (simp add: newFile_def demo_def XliffFileType_def FileType_def world0_def
        list_collab_def Let_def)
  note w = getResourceFile_pure [OF h1 h2, of ?E demo "''en-US.xliff''"]
  from w have a: "fst (getResourceFile (run ?E [Write, GetNew, AddSet ([''x''], True)] demo)) = None"
    by (rule conjunct1)
  from w have b: "fst (getResourceFile (snd (newFile ?E ''en-US.xliff'' demo))) =
      Some (fst (newFile ?E ''en-US.xliff'' demo))"
    by (rule conjunct2 [OF conjunct2])
  from h1 a b r show ?thesis
    by (simp del: run.simps)
qed

subsection \<open>Path recognition\<close>

text \<open>
  C6. handles(pathName) returns true exactly when path.normalize(pathName) is
  the string "en-US.xliff", and the answer does not depend on the extension
  list of the instance. With Node's POSIX normalization, "en-US.xliff" and
  "./en-US.xliff" are handled, "fr-FR.xliff" and "en-US.xliff.bak" are not.
\<close>

theorem handles_iff_normalized_name:
  "fst (handles E p s) = (path_normalize E p = ''en-US.xliff'')
   \<and> fst (handles E p (s\<lparr>extensions := exts\<rparr>)) = fst (handles E p s)
   \<and> fst (handles (E\<lparr>path_normalize := posix_normalize\<rparr>) ''en-US.xliff'' s)
   \<and> fst (handles (E\<lparr>path_normalize := posix_normalize\<rparr>) ''./en-US.xliff'' s)
   \<and> \<not> fst (handles (E\<lparr>path_normalize := posix_normalize\<rparr>) ''fr-FR.xliff'' s)
   \<and> \<not> fst (handles (E\<lparr>path_normalize := posix_normalize\<rparr>) ''en-US.xliff.bak'' s)"
proof -
  have general: "\<And>E' q s'. fst (handles E' q s') = (path_normalize E' q = ''en-US.xliff'')"
    by (simp add: handles_def Let_def)
  have n1: "posix_normalize ''en-US.xliff'' = ''en-US.xliff''"
    by (simp add: posix_normalize_def)
  have n2: "posix_normalize ''./en-US.xliff'' = ''en-US.xliff''"
    by (simp add: posix_normalize_def)
  have n3: "posix_normalize ''fr-FR.xliff'' = ''fr-FR.xliff''"
    by (simp add: posix_normalize_def)
  have n4: "posix_normalize ''en-US.xliff.bak'' = ''en-US.xliff.bak''"
    by (simp add: posix_normalize_def)
  show ?thesis
    by (simp add: general n1 n2 n3 n4)
qed

subsection \<open>The importer\<close>

text \<open>
  C7. Suppose write invokes the importer (a ResourceFile exists and its set is
  dirty after the persist step) and the importer reports a status other than
  0. Then write still returns, the file it leaves is the persisted merge
  (persisted once, neither rolled back nor persisted again), exactly one
  warning line "Execution failed: " has been logged by the call, nothing has
  been logged as an error or as fatal, and apart from the log the state is the
  one the same call leaves when the importer reports status 0.
\<close>

theorem importer_failure_is_only_a_warning:
  assumes "file s = Some (i, f0)"
    and "ts_isDirty E (xf_getTranslationSet E (persisted E s f0))"
    and "status (spawnSync E ''xcodebuild'' xcodebuild_args) \<noteq> Some 0"
  shows "file (write_out E s) = Some (i, persisted E s f0)
         \<and> at_level Warn (logged (write_out E s)) =
             at_level Warn (logged s) @ [(Warn, ''Execution failed: '')]
         \<and> at_level Error (logged (write_out E s)) = at_level Error (logged s)
         \<and> at_level Fatal (logged (write_out E s)) = at_level Fatal (logged s)
         \<and> (write_out E s)\<lparr>logged := lg\<rparr> =
             (write_out (E\<lparr>spawnSync := \<lambda>cmd args. (spawnSync E cmd args)\<lparr>status := Some 0\<rparr>\<rparr>) s)
               \<lparr>logged := lg\<rparr>"
proof -
  let ?E0 = "E\<lparr>spawnSync := \<lambda>cmd args. (spawnSync E cmd args)\<lparr>status := Some 0\<rparr>\<rparr>"
  from assms(1) have kept: "file (write_out E s) = Some (i, persisted E s f0)"
    by (simp add: write_out_file)
  from assms(1,2) have lg: "logged (write_out E s) =
      logged s @ merge_lines E s f0 @ import_lines E (project s)"
    by (simp add: write_out_logged)
  from assms(3) have warn: "at_level Warn (logged (write_out E s)) =
      at_level Warn (logged s) @ [(Warn, ''Execution failed: '')]"
    by (simp add: lg at_level_append at_level_merge_lines at_level_import_lines)
  have err: "at_level Error (logged (write_out E s)) = at_level Error (logged s)"
    by (simp add: lg at_level_append at_level_merge_lines at_level_import_lines)
  have fatal: "at_level Fatal (logged (write_out E s)) = at_level Fatal (logged s)"
    by (simp add: lg at_level_append at_level_merge_lines at_level_import_lines)
  from assms(2) have dirty0: "ts_isDirty ?E0 (xf_getTranslationSet ?E0 (persisted ?E0 s f0))"
    by (simp add: persisted_spawnSync)
  have "(write_out E s)\<lparr>logged := lg\<rparr> =
      s\<lparr>file := Some (i, persisted E s f0), logged := lg,
        spawned := spawned s @ [(''xcodebuild'', xcodebuild_args)]\<rparr>"
    using assms(1,2) by (simp add: write_out_Some)
  moreover have "(write_out ?E0 s)\<lparr>logged := lg\<rparr> =
      s\<lparr>file := Some (i, persisted ?E0 s f0), logged := lg,
        spawned := spawned s @ [(''xcodebuild'', xcodebuild_args)]\<rparr>"
    using assms(1) dirty0 by (simp add: write_out_Some)
  ultimately have same: "(write_out E s)\<lparr>logged := lg\<rparr> = (write_out ?E0 s)\<lparr>logged := lg\<rparr>"
    by (simp add: persisted_spawnSync)
  from kept warn err fatal same show ?thesis by simp
qed

theorem importer_failure_is_only_a_warning_witness:
  "file (write_out (list_collab True \<lparr>status = Some 65, stdout = None, stderr = Some ''no project''\<rparr>)
     (snd (newFile (list_collab True \<lparr>status = Some 65, stdout = None, stderr = Some ''no project''\<rparr>)
        ''en-US.xliff'' demo))) = Some (0, (''en-US.xliff'', ([''a'', ''b'', ''c''], True))) \<and>
   at_level Warn (logged (write_out
     (list_collab True \<lparr>status = Some 65, stdout = None, stderr = Some ''no project''\<rparr>)
     (snd (newFile (list_collab True \<lparr>status = Some 65, stdout = None, stderr = Some ''no project''\<rparr>)
        ''en-US.xliff'' demo)))) = [(Warn, ''Execution failed: '')]"
proof -
  let ?E = "list_collab True \<lparr>status = Some 65, stdout = None, stderr = Some ''no project''\<rparr>"
  let ?s = "snd (newFile ?E ''en-US.xliff'' demo)"
  have h1: "file ?s = Some (0, (''en-US.xliff'', ([], False)))"
    by (simp add: newFile_def demo_def XliffFileType_def FileType_def world0_def
        list_collab_def Let_def)
  have p: "persisted ?E ?s (''en-US.xliff'', ([], False)) =
      (''en-US.xliff'', ([''a'', ''b'', ''c''], True))"
    by (simp add: persisted_def merged_def newFile_def demo_def XliffFileType_def
        FileType_def world0_def list_collab_def Let_def)
  have h2: "ts_isDirty ?E (xf_getTranslationSet ?E (persisted ?E ?s (''en-US.xliff'', ([], False))))"
    unfolding p by (simp add: list_collab_def)
  have h3: "status (spawnSync ?E ''xcodebuild'' xcodebuild_args) \<noteq> Some 0"
    by (simp add: list_collab_def)
  have l0: "at_level Warn (logged ?s) = []"
    by (simp add: newFile_def demo_def XliffFileType_def FileType_def world0_def
        at_level_def Let_def)
  note w = importer_failure_is_only_a_warning [OF h1 h2 h3]
  from w have a: "file (write_out ?E ?s) =
      Some (0, persisted ?E ?s (''en-US.xliff'', ([], False)))"
    by (rule conjunct1)
  from w have b: "at_level Warn (logged (write_out ?E ?s)) =
      at_level Warn (logged ?s) @ [(Warn, ''Execution failed: '')]"
    by (rule conjunct1 [OF conjunct2])
  from a b p l0 show ?thesis by simp
qed

text \<open>
  C10. Every invocation of the importer by write runs \<^verbatim>\<open>xcodebuild\<close> with the
  argument list -importLocalizations -localizationPath ./en.xliff -project
  feelgood.xcodeproj: one call of write either spawns nothing or spawns exactly
  that, whatever the state and the collaborators are. In particular, for every
  ResourceFile and every path it may have been created with, if its set is
  dirty after the persist step then the importer is told to import ./en.xliff.
\<close>

theorem importer_arguments_fixed:
  "(spawned (write_out E s) = spawned s
    \<or> spawned (write_out E s) = spawned s @
        [(''xcodebuild'', [''-importLocalizations'', ''-localizationPath'', ''./en.xliff'',
                           ''-project'', ''feelgood.xcodeproj''])])
   \<and> spawned (write_out (E\<lparr>ts_isDirty := \<lambda>t. True\<rparr>)
          (s\<lparr>file := Some (i, xf_new E (project s) pathName (sourceLocale (project s)))\<rparr>)) =
       spawned s @
        [(''xcodebuild'', [''-importLocalizations'', ''-localizationPath'', ''./en.xliff'',
                           ''-project'', ''feelgood.xcodeproj''])]"
  by (simp add: write_out_spawned xcodebuild_args_def split: option.splits)

text \<open>
  An instance of it on the stand-in collaborators: the file is created with the
  path en-US.xliff, and the importer is run on ./en.xliff.
\<close>

lemma importer_arguments_example:
  "spawned (write_out (list_collab True p) (snd (newFile (list_collab True p) ''en-US.xliff'' demo))) =
        [(''xcodebuild'', [''-importLocalizations'', ''-localizationPath'', ''./en.xliff'',
                           ''-project'', ''feelgood.xcodeproj''])]
   \<and> map_option (\<lambda>(i, f). xf_pathName (list_collab True p) f)
        (file (write_out (list_collab True p)
           (snd (newFile (list_collab True p) ''en-US.xliff'' demo)))) = Some ''en-US.xliff''"
proof -
  let ?E = "list_collab True p"
  let ?s = "snd (newFile ?E ''en-US.xliff'' demo)"
  have h: "file ?s = Some (0, (''en-US.xliff'', ([], False)))"
    by (simp add: newFile_def demo_def XliffFileType_def FileType_def world0_def
        list_collab_def Let_def)
  have sp0: "spawned ?s = []"
    by (simp add: newFile_def demo_def XliffFileType_def FileType_def world0_def Let_def)
  have pe: "persisted ?E ?s (''en-US.xliff'', ([], False)) =
      (''en-US.xliff'', ([''a'', ''b'', ''c''], True))"
    by (simp add: persisted_def merged_def newFile_def demo_def XliffFileType_def
        FileType_def world0_def list_collab_def Let_def)
  have d: "ts_isDirty ?E (xf_getTranslationSet ?E (''en-US.xliff'', ([''a'', ''b'', ''c''], True)))"
    by (simp add: list_collab_def)
  have pn: "xf_pathName ?E (''en-US.xliff'', ([''a'', ''b'', ''c''], True)) = ''en-US.xliff''"
    by (simp add: list_collab_def)
  have run1: "spawned (write_out ?E ?s) =
        [(''xcodebuild'', [''-importLocalizations'', ''-localizationPath'', ''./en.xliff'',
                           ''-project'', ''feelgood.xcodeproj''])]"
    by (simp add: write_out_spawned h sp0 pe d xcodebuild_args_def)
  have run2: "map_option (\<lambda>(i, f). xf_pathName ?E f) (file (write_out ?E ?s)) = Some ''en-US.xliff''"
    by (simp add: write_out_file h pe pn)
  from run1 run2 show ?thesis by blast
qed

subsection \<open>The accumulation sets\<close>

text \<open>
  C8. write leaves the extracted, new and pseudo sets as they are. No method of
  the class changes the new or the pseudo set, and the only method that changes
  the extracted set is addSet, which replaces it by the collaborator's bulk
  merge of the given set into it: after any run, the extracted set is the
  initial one with the sets of the addSet calls merged in, in order. Provided
  that bulk merge does not drop records of the receiving set, no run of the
  pipeline drops a record of any of the three sets.
\<close>

theorem sets_never_shrink:
  "extracted (write_out E s) = extracted s \<and> newres (write_out E s) = newres s
   \<and> pseudo (write_out E s) = pseudo s
   \<and> newres (run E cs s) = newres s \<and> pseudo (run E cs s) = pseudo s
   \<and> extracted (run E cs s) = foldl (ts_addSet E) (extracted s) (addSet_args cs)
   \<and> ((\<forall>a b. set (ts_getAll E a) \<subseteq> set (ts_getAll E (ts_addSet E a b))) \<longrightarrow>
        set (ts_getAll E (extracted s)) \<subseteq> set (ts_getAll E (extracted (run E cs s))))"
  by (simp add: write_out_sets run_newres_pseudo run_extracted foldl_addSet_grows)

theorem sets_never_shrink_witness:
  "extracted demo = ([''old''], False) \<and>
   extracted (run (list_collab True \<lparr>status = Some 0, stdout = None, stderr = None\<rparr>)
     [AddSet ([''x'', ''y''], True), NewFile ''en-US.xliff'', Write, AddSet ([''z''], True)] demo) =
     ([''old'', ''x'', ''y'', ''z''], True) \<and>
   set (fst (extracted demo)) \<subseteq>
   set (fst (extracted (run (list_collab True \<lparr>status = Some 0, stdout = None, stderr = None\<rparr>)
     [AddSet ([''x'', ''y''], True), NewFile ''en-US.xliff'', Write, AddSet ([''z''], True)] demo)))"
proof -
  let ?E = "list_collab True \<lparr>status = Some 0, stdout = None, stderr = None\<rparr>"
  let ?cs = "[AddSet ([''x'', ''y''], True), NewFile ''en-US.xliff'', Write, AddSet ([''z''], True)]"
  have h: "\<forall>a b. set (ts_getAll ?E a) \<subseteq> set (ts_getAll ?E (ts_addSet ?E a b))"
    by (simp add: list_collab_def)
  have e0: "extracted demo = ([''old''], False)"
    by (simp add: demo_def XliffFileType_def FileType_def Let_def)
  have g: "ts_getAll ?E = fst"
    by (simp add: list_collab_def)
  note w = sets_never_shrink [of ?E demo ?cs]
  from w have a: "extracted (run ?E ?cs demo) =
      foldl (ts_addSet ?E) (extracted demo) (addSet_args ?cs)"
    by blast
  from w h have b: "set (ts_getAll ?E (extracted demo)) \<subseteq>
      set (ts_getAll ?E (extracted (run ?E ?cs demo)))"
    by blast
  have c: "foldl (ts_addSet ?E) ([''old''], False) (addSet_args ?cs) =
      ([''old'', ''x'', ''y'', ''z''], True)"
    by (simp add: list_collab_def)
  from a b c e0 g show ?thesis
    by (simp del: run.simps)
qed

end
